theory Spec2Isabelle
  imports Main
begin

section \<open>Data model of \<^verbatim>\<open>move.go\<close>\<close>

text \<open>
  A remote entry. A Go \<^verbatim>\<open>*File\<close> is a \<open>File option\<close>: \<open>None\<close> is the nil pointer.
  The field \<^verbatim>\<open>Id\<close> is written \<open>Id_File\<close>, since \<open>Id\<close> is the identity relation of HOL.
\<close>

record File =
  Id_File :: string
  Name :: string
  IsDir :: bool
  Copyable :: bool

text \<open>
  Go errors. The two sentinels are compared by identity in the source; an error built by
  \<^verbatim>\<open>fmt.Errorf\<close> is kept as its format string and its arguments; \<open>RemoteErr\<close> is any
  other error handed back by the remote store.
\<close>

datatype error =
    ErrPathNotExists
  | ErrPathNotDir
  | Errorf string "arg list"
  | RemoteErr string
and arg =
    S string
  | L "string list"
  | E error
  | EL "error list"

text \<open>
  What the program does to the outside: the mutating calls it issues on the remote store
  (recorded whether they succeed or fail) and the lines it prints or logs.
\<close>

datatype event =
    InsertParent string string
  | RemoveParent string string
  | RenameCall string string
  | CopyCall string string File
  | MkdirAll string
  | Printf string "arg list"
  | LogErrf string "arg list"
  | Logln string
  | SpinPlay
  | SpinStop

record 's world =
  store :: 's
  trace :: "event list"

definition emit :: "event \<Rightarrow> 's world \<Rightarrow> 's world" where
  "emit ev w = w\<lparr>trace := trace w @ [ev]\<rparr>"


text \<open>
  A call either returns or panics (a nil pointer dereference or an index out of range, named
  by the variable read); \<open>OutOfFuel\<close> is the model running out of recursion depth in the
  recursive directory copy.
\<close>

datatype 'a outcome = Ret 'a | Panic string | OutOfFuel

text \<open>\<^verbatim>\<open>g.opts\<close>: the fields this file reads.\<close>

record opts =
  Sources :: "string list"
  Force :: bool
  Path :: string

text \<open>
  \<^verbatim>\<open>g.rem\<close>: the remote store, over an abstract store state \<open>'s\<close>. Lookups read the
  state; mutating calls return their result and the next state.
\<close>

record 's Remote =
  FindByPath :: "'s \<Rightarrow> string \<Rightarrow> File option list \<times> error option"
  FindByIdMulti :: "'s \<Rightarrow> string \<Rightarrow> File option list \<times> error option"
  findChildren :: "'s \<Rightarrow> string \<Rightarrow> bool \<Rightarrow> File option list"
  insertParent :: "'s \<Rightarrow> string \<Rightarrow> string \<Rightarrow> error option \<times> 's"
  rem_removeParent :: "'s \<Rightarrow> string \<Rightarrow> string \<Rightarrow> error option \<times> 's"
  rename :: "'s \<Rightarrow> string \<Rightarrow> string \<Rightarrow> (File option \<times> error option) \<times> 's"
  rem_copy :: "'s \<Rightarrow> string \<Rightarrow> string \<Rightarrow> File \<Rightarrow> (File option \<times> error option) \<times> 's"

text \<open>
  Functions and constants of the package that \<^verbatim>\<open>move.go\<close> calls and that are defined
  in other files or in the Go library; they are parameters of the model.
\<close>

record package =
  commonPrefix :: "string \<Rightarrow> string \<Rightarrow> string"
  filepath_Join :: "string \<Rightarrow> string \<Rightarrow> string"
  sepJoin :: "string \<Rightarrow> string \<Rightarrow> string \<Rightarrow> string"
  urlToPath :: "string \<Rightarrow> bool \<Rightarrow> string"
  customQuote :: "string \<Rightarrow> string"
  ForceKey :: string

text \<open>
  \<^verbatim>\<open>*Commands\<close>: options, remote, and the methods \<^verbatim>\<open>parentPather\<close>,
  \<^verbatim>\<open>pathSplitter\<close> and \<^verbatim>\<open>remoteMkdirAll\<close>, which are defined in other files.
\<close>

record 's Commands =
  opts :: opts
  rem :: "'s Remote"
  pkg :: package
  parentPather :: "string \<Rightarrow> string"
  pathSplitter :: "string \<Rightarrow> string \<times> string"
  remoteMkdirAll :: "'s \<Rightarrow> string \<Rightarrow> (File option \<times> error option) \<times> 's"

record moveOpt =
  src :: string
  dest :: string
  byId :: bool
  srcFile :: "File option"
  destFile :: "File option"

section \<open>Move\<close>

text \<open>\<^verbatim>\<open>Commands.removeParent\<close>, lines 166-184: the loop over the old parents.\<close>

fun removeParent_loop ::
  "'s Commands \<Rightarrow> string \<Rightarrow> string \<Rightarrow> string \<Rightarrow> File option list \<Rightarrow> 's world
    \<Rightarrow> error option \<times> 's world" where
  "removeParent_loop g fileId relToRootPath parentPath [] w = (None, w)"
| "removeParent_loop g fileId relToRootPath parentPath (parent # parents) w =
     (case parent of
        None \<Rightarrow> (Some (Errorf ''non existant parent '%s' for src'' [S parentPath]), w)
      | Some p \<Rightarrow>
          (case rem_removeParent (rem g) (store w) fileId (Id_File p) of
             (err, st) \<Rightarrow>
               let w1 = emit (RemoveParent fileId (Id_File p)) (w\<lparr>store := st\<rparr>);
                   w2 = (case err of
                           None \<Rightarrow> w1
                         | Some e \<Rightarrow>
                             emit (LogErrf ''removeParent:: %s %s %v\<newline>''
                                     [S fileId, S relToRootPath, E e]) w1)
               in removeParent_loop g fileId relToRootPath parentPath parents w2))"

definition removeParent ::
  "'s Commands \<Rightarrow> string \<Rightarrow> string \<Rightarrow> 's world \<Rightarrow> error option \<times> 's world" where
  "removeParent g fileId relToRootPath w =
     (let parentPath = parentPather g relToRootPath in
      case FindByPath (rem g) (store w) parentPath of
        (parents, Some pErr) \<Rightarrow> (Some pErr, w)
      | (parents, None) \<Rightarrow> removeParent_loop g fileId relToRootPath parentPath parents w)"

text \<open>
  \<^verbatim>\<open>move_\<close>, lines 119-125: the loop over the old parents. \<open>None\<close> means the loop ran
  to its end; \<open>Some r\<close> means \<^verbatim>\<open>move_\<close> returns \<open>r\<close> from inside the loop.
\<close>

fun oldParents_loop ::
  "'s Commands \<Rightarrow> File option \<Rightarrow> File option list \<Rightarrow> error option outcome option" where
  "oldParents_loop g newParent [] = None"
| "oldParents_loop g newParent (oldParent # oldParents) =
     (case oldParent of
        None \<Rightarrow> oldParents_loop g newParent oldParents
      | Some old \<Rightarrow>
          (case newParent of
             None \<Rightarrow> Some (Panic ''newParent'')
           | Some np \<Rightarrow>
               if Id_File old = Id_File np
               then Some (Ret (Some (Errorf
                      ''src and dest are the same srcParentId %s destParentId %s''
                      [S (customQuote (pkg g) (Id_File old)),
                       S (customQuote (pkg g) (Id_File np))])))
               else oldParents_loop g newParent oldParents))"

text \<open>\<^verbatim>\<open>move_\<close>, lines 112-126.\<close>

definition oldParents_check ::
  "'s Commands \<Rightarrow> moveOpt \<Rightarrow> 's world \<Rightarrow> error option outcome option" where
  "oldParents_check g opt w =
     (if \<not> byId opt then
        (let parentPath = parentPather g (src opt) in
         case FindByPath (rem g) (store w) parentPath of
           (oldParents, parErr) \<Rightarrow>
             if parErr \<noteq> None \<and> parErr \<noteq> Some ErrPathNotExists then Some (Ret parErr)
             else oldParents_loop g (destFile opt) oldParents)
      else None)"

text \<open>\<^verbatim>\<open>move_\<close>, lines 137-149: the loop over the objects found at the new full path.\<close>

fun dupChecks_loop ::
  "'s Commands \<Rightarrow> File \<Rightarrow> string \<Rightarrow> File option list \<Rightarrow> error option" where
  "dupChecks_loop g remSrc newFullPath [] = None"
| "dupChecks_loop g remSrc newFullPath (dup # dups) =
     (case dup of
        None \<Rightarrow> dupChecks_loop g remSrc newFullPath dups
      | Some d \<Rightarrow>
          if Id_File d = Id_File remSrc
          then Some (Errorf ''move: trying to move fileId:%s to self fileId:%s''
                 [S (customQuote (pkg g) (Id_File d)),
                  S (customQuote (pkg g) (Id_File remSrc))])
          else if \<not> Force (opts g)
          then Some (Errorf
                 ''%s already exists. Use `%s` flag to override this behaviour''
                 [S newFullPath, S (ForceKey (pkg g))])
          else dupChecks_loop g remSrc newFullPath dups)"

text \<open>\<^verbatim>\<open>move_\<close>, lines 151-163: the self-nesting guard and the two edge mutations.\<close>

definition move_edges ::
  "'s Commands \<Rightarrow> moveOpt \<Rightarrow> File \<Rightarrow> 's world \<Rightarrow> error option outcome \<times> 's world" where
  "move_edges g opt remSrc w =
     (case destFile opt of
        None \<Rightarrow> (Panic ''newParent'', w)
      | Some newParent \<Rightarrow>
          if Id_File remSrc = Id_File newParent
          then (Ret (Some (Errorf ''move: cannot move '%s' to itself'' [S (src opt)])), w)
          else
            (case insertParent (rem g) (store w) (Id_File remSrc) (Id_File newParent) of
               (err, st) \<Rightarrow>
                 let w1 = emit (InsertParent (Id_File remSrc) (Id_File newParent))
                            (w\<lparr>store := st\<rparr>)
                 in if err \<noteq> None then (Ret err, w1)
                    else if byId opt then (Ret None, w1)
                    else (case removeParent g (Id_File remSrc) (src opt) w1 of
                            (r, w2) \<Rightarrow> (Ret r, w2))))"

text \<open>\<^verbatim>\<open>move_\<close>, lines 102-164, as \<open>move_impl\<close> (a name cannot end with an underscore).\<close>

definition move_impl ::
  "'s Commands \<Rightarrow> moveOpt \<Rightarrow> 's world \<Rightarrow> error option outcome \<times> 's world" where
  "move_impl g opt w =
     (case srcFile opt of
        None \<Rightarrow> (Ret (Some (Errorf ''src: '%s' could not be found'' [S (src opt)])), w)
      | Some remSrc \<Rightarrow>
          (case oldParents_check g opt w of
             Some r \<Rightarrow> (r, w)
           | None \<Rightarrow>
               (let newFullPath = filepath_Join (pkg g) (dest opt) (Name remSrc) in
                case FindByPath (rem g) (store w) newFullPath of
                  (dupChecks, err) \<Rightarrow>
                    if err \<noteq> None \<and> err \<noteq> Some ErrPathNotExists then (Ret err, w)
                    else
                      (case dupChecks_loop g remSrc newFullPath dupChecks of
                         Some e \<Rightarrow> (Ret (Some e), w)
                       | None \<Rightarrow> move_edges g opt remSrc w))))"

text \<open>
  \<^verbatim>\<open>Commands.move\<close>, lines 83-97: the inner loop over the new parents for one source,
  and the outer loop over the sources. The option record is the one the source mutates
  in place, so it is handed on to the next iteration.
\<close>

fun move_newParents ::
  "'s Commands \<Rightarrow> moveOpt \<Rightarrow> File option \<Rightarrow> File option list \<Rightarrow> error list \<Rightarrow> 's world
    \<Rightarrow> (error list \<times> moveOpt) outcome \<times> 's world" where
  "move_newParents g opt srcF [] errs w = (Ret (errs, opt), w)"
| "move_newParents g opt srcF (newParent # newParents) errs w =
     (if newParent = None \<or> \<not> IsDir (the newParent)
      then move_newParents g opt srcF newParents
             (errs @ [Errorf ''dest: '%s' must be an existant folder'' [S (dest opt)]]) w
      else
        (let opt1 = opt\<lparr>srcFile := srcF, destFile := newParent\<rparr> in
         case move_impl g opt1 w of
           (Ret None, w1) \<Rightarrow> move_newParents g opt1 srcF newParents errs w1
         | (Ret (Some err), w1) \<Rightarrow> move_newParents g opt1 srcF newParents (errs @ [err]) w1
         | (Panic v, w1) \<Rightarrow> (Panic v, w1)
         | (OutOfFuel, w1) \<Rightarrow> (OutOfFuel, w1)))"

fun move_sources ::
  "'s Commands \<Rightarrow> moveOpt \<Rightarrow> File option list \<Rightarrow> File option list \<Rightarrow> error list \<Rightarrow> 's world
    \<Rightarrow> error list outcome \<times> 's world" where
  "move_sources g opt [] newParents errs w = (Ret errs, w)"
| "move_sources g opt (srcF # sources) newParents errs w =
     (case move_newParents g opt srcF newParents errs w of
        (Ret (errs1, opt1), w1) \<Rightarrow> move_sources g opt1 sources newParents errs1 w1
      | (Panic v, w1) \<Rightarrow> (Panic v, w1)
      | (OutOfFuel, w1) \<Rightarrow> (OutOfFuel, w1))"

text \<open>\<^verbatim>\<open>Commands.move\<close>, lines 64-100.\<close>

definition move ::
  "'s Commands \<Rightarrow> moveOpt \<Rightarrow> 's world \<Rightarrow> error list outcome \<times> 's world" where
  "move g opt w =
     (let srcResolver = (if byId opt then FindByIdMulti (rem g) else FindByPath (rem g)) in
      case srcResolver (store w) (src opt) of
        (sources, Some err) \<Rightarrow> (Ret [Errorf ''src('%s') %v'' [S (src opt), E err]], w)
      | (sources, None) \<Rightarrow>
          (case FindByPath (rem g) (store w) (dest opt) of
             (newParents, Some parErr) \<Rightarrow>
               (Ret [Errorf ''dest: '%s' %v'' [S (dest opt), E parErr]], w)
           | (newParents, None) \<Rightarrow> move_sources g opt sources newParents [] w))"

text \<open>
  \<^verbatim>\<open>Commands.Move\<close>, lines 52-58: one line is printed for each error of a source.
  The list never holds a nil error, so the guard of line 54 is always true.
\<close>

definition print_errs :: "string \<Rightarrow> error list \<Rightarrow> 's world \<Rightarrow> 's world" where
  "print_errs srcPath errs w =
     foldl (\<lambda>w1 err. emit (Printf ''move: %s: %v\<newline>'' [S srcPath, E err]) w1) w errs"

text \<open>\<^verbatim>\<open>Commands.Move\<close>, lines 38-59: the loop over the source arguments.\<close>

fun Move_loop ::
  "'s Commands \<Rightarrow> bool \<Rightarrow> string \<Rightarrow> string list \<Rightarrow> 's world
    \<Rightarrow> error option outcome \<times> 's world" where
  "Move_loop g byIdFlag destPath [] w = (Ret None, w)"
| "Move_loop g byIdFlag destPath (srcPath # rest) w =
     (if commonPrefix (pkg g) srcPath destPath = srcPath
      then (Ret (Some (Errorf ''%s cannot be nested into %s'' [S srcPath, S destPath])), w)
      else
        (case move g \<lparr>src = srcPath, dest = destPath, byId = byIdFlag,
                       srcFile = None, destFile = None\<rparr> w of
           (Ret errs, w1) \<Rightarrow> Move_loop g byIdFlag destPath rest (print_errs srcPath errs w1)
         | (Panic v, w1) \<Rightarrow> (Panic v, w1)
         | (OutOfFuel, w1) \<Rightarrow> (OutOfFuel, w1)))"

text \<open>\<^verbatim>\<open>Commands.Move\<close>, lines 30-62.\<close>

definition Move :: "'s Commands \<Rightarrow> bool \<Rightarrow> 's world \<Rightarrow> error option outcome \<times> 's world" where
  "Move g byIdFlag w =
     (let argc = length (Sources (opts g)) in
      if argc < 2
      then (Ret (Some (Errorf ''move: expected <src> [src...] <dest>, instead got: %v''
                  [L (Sources (opts g))])), w)
      else
        (let rest = take (argc - 1) (Sources (opts g));
             destPath = Sources (opts g) ! (argc - 1)
         in Move_loop g byIdFlag destPath rest w))"

text \<open>
  \<^verbatim>\<open>Commands.Move\<close>, lines 46-58: what the body of the loop does to the world for one
  source that passed the nesting check.
\<close>

definition Move_attempt ::
  "'s Commands \<Rightarrow> bool \<Rightarrow> string \<Rightarrow> string \<Rightarrow> 's world \<Rightarrow> 's world" where
  "Move_attempt g byIdFlag destPath srcPath w =
     (case move g \<lparr>src = srcPath, dest = destPath, byId = byIdFlag,
                    srcFile = None, destFile = None\<rparr> w of
        (Ret errs, w1) \<Rightarrow> print_errs srcPath errs w1
      | (r, w1) \<Rightarrow> w1)"

section \<open>Rename\<close>

text \<open>
  \<^verbatim>\<open>rename_\<close>, lines 230-243: the loop over the objects found at the new full path.
  The variable \<^verbatim>\<open>err\<close> of \<^verbatim>\<open>rename_\<close> is overwritten by each call of the rename
  primitive and is what \<^verbatim>\<open>rename_\<close> returns. In \<^verbatim>\<open>dup.Id == remSrc.Id\<close> the left
  operand is read first.
\<close>

fun rename_loop ::
  "'s Commands \<Rightarrow> File option \<Rightarrow> string \<Rightarrow> string \<Rightarrow> File option list \<Rightarrow> error option
    \<Rightarrow> 's world \<Rightarrow> error option outcome \<times> 's world" where
  "rename_loop g remSrc newName newFullPath [] err w = (Ret err, w)"
| "rename_loop g remSrc newName newFullPath (dup # dups) err w =
     (case dup of
        None \<Rightarrow> (Panic ''dup'', w)
      | Some d \<Rightarrow>
          (case remSrc of
             None \<Rightarrow> (Panic ''remSrc'', w)
           | Some r \<Rightarrow>
               if Id_File d = Id_File r
               then rename_loop g remSrc newName newFullPath dups err w
               else if \<not> Force (opts g)
               then rename_loop g remSrc newName newFullPath dups err
                      (emit (LogErrf
                          ''%s already exists. Use `%s` flag to override this behaviour''
                          [S newFullPath, S (ForceKey (pkg g))]) w)
               else
                 (case rename (rem g) (store w) (Id_File r) newName of
                    ((renamed, err1), st) \<Rightarrow>
                      let w1 = emit (RenameCall (Id_File r) newName) (w\<lparr>store := st\<rparr>);
                          w2 = (case err1 of
                                  None \<Rightarrow> w1
                                | Some e \<Rightarrow>
                                    emit (LogErrf ''rename: %s %s %v\<newline>''
                                            [S (Id_File r), S newName, E e]) w1)
                      in rename_loop g remSrc newName newFullPath dups err1 w2)))"

text \<open>\<^verbatim>\<open>rename_\<close>, lines 215-247, as \<open>rename_impl\<close>.\<close>

definition rename_impl ::
  "'s Commands \<Rightarrow> string \<Rightarrow> File option \<Rightarrow> bool \<Rightarrow> 's world
    \<Rightarrow> error option outcome \<times> 's world" where
  "rename_impl g srcPath remSrc byIdFlag w =
     (let parentPath = (if \<not> byIdFlag then parentPather g srcPath else Path (opts g)) in
      if length (Sources (opts g)) \<le> 1 then (Panic ''Sources[1]'', w)
      else
        (let newName = Sources (opts g) ! 1;
             urlBoundName = urlToPath (pkg g) newName True;
             newFullPath = filepath_Join (pkg g) parentPath urlBoundName
         in case FindByPath (rem g) (store w) newFullPath of
              (dupChecks, err) \<Rightarrow>
                if err = None \<and> length dupChecks \<ge> 1
                then rename_loop g remSrc newName newFullPath dupChecks err w
                else (Ret err, w)))"

text \<open>\<^verbatim>\<open>Commands.Rename\<close>, lines 202-210: the loop over the resolved sources.\<close>

fun Rename_loop ::
  "'s Commands \<Rightarrow> string \<Rightarrow> bool \<Rightarrow> File option list \<Rightarrow> 's world
    \<Rightarrow> error option outcome \<times> 's world" where
  "Rename_loop g srcPath byIdFlag [] w = (Ret None, w)"
| "Rename_loop g srcPath byIdFlag (remSrc # remoteSources) w =
     (let w1 = (if remSrc = None then emit (LogErrf ''%s does not exist'' [S srcPath]) w
                else w)
      in case rename_impl g srcPath remSrc byIdFlag w1 of
           (Ret None, w2) \<Rightarrow> Rename_loop g srcPath byIdFlag remoteSources w2
         | (Ret (Some err), w2) \<Rightarrow>
             Rename_loop g srcPath byIdFlag remoteSources
               (emit (LogErrf ''%s %v\<newline>'' [S srcPath, E err]) w2)
         | (Panic v, w2) \<Rightarrow> (Panic v, w2)
         | (OutOfFuel, w2) \<Rightarrow> (OutOfFuel, w2))"

text \<open>\<^verbatim>\<open>Commands.Rename\<close>, lines 186-213.\<close>

definition Rename :: "'s Commands \<Rightarrow> bool \<Rightarrow> 's world \<Rightarrow> error option outcome \<times> 's world" where
  "Rename g byIdFlag w =
     (if length (Sources (opts g)) < 2
      then (Ret (Some (Errorf ''rename: expecting <src> <newname>'' [])), w)
      else
        (let srcPath = Sources (opts g) ! 0;
             resolver = (if byIdFlag then FindByIdMulti (rem g) else FindByPath (rem g))
         in case resolver (store w) srcPath of
              (remoteSources, Some err) \<Rightarrow>
                (Ret (Some (Errorf ''%s: %v'' [S srcPath, E err])), w)
            | (remoteSources, None) \<Rightarrow> Rename_loop g srcPath byIdFlag remoteSources w))"

section \<open>Copy\<close>

text \<open>
  \<^verbatim>\<open>Commands.copy\<close>, lines 388-403: the loop over the objects found at the destination
  path, for a leaf source. \<^verbatim>\<open>parentId\<close> and \<^verbatim>\<open>destBase\<close> are variables of the
  enclosing block, so an assignment made for one entry stays for the next ones.
\<close>

fun copy_leaf_loop ::
  "'s Commands \<Rightarrow> File \<Rightarrow> File option list \<Rightarrow> string \<Rightarrow> string \<Rightarrow> File option list
    \<Rightarrow> error list \<Rightarrow> 's world \<Rightarrow> (File option list \<times> error list) \<times> 's world" where
  "copy_leaf_loop g srcF [] parentId destBase copies errs w = ((copies, errs), w)"
| "copy_leaf_loop g srcF (destF # destFiles) parentId destBase copies errs w =
     (let into = (case destF of None \<Rightarrow> False | Some df \<Rightarrow> IsDir df);
          parentId1 = (if into then Id_File (the destF) else parentId);
          destBase1 = (if into then Name srcF else destBase)
      in case rem_copy (rem g) (store w) destBase1 parentId1 srcF of
           ((cp, cpErr), st) \<Rightarrow>
             let w1 = emit (CopyCall destBase1 parentId1 srcF) (w\<lparr>store := st\<rparr>);
                 copies1 = (case cp of None \<Rightarrow> copies | Some c \<Rightarrow> copies @ [Some c]);
                 errs1 = (case cpErr of None \<Rightarrow> errs | Some e \<Rightarrow> errs @ [e])
             in copy_leaf_loop g srcF destFiles parentId1 destBase1 copies1 errs1 w1)"

text \<open>\<^verbatim>\<open>Commands.copy\<close>, lines 367-406: the branch for a source that is not a directory.\<close>

definition copy_leaf ::
  "'s Commands \<Rightarrow> File \<Rightarrow> string \<Rightarrow> 's world
    \<Rightarrow> (File option list \<times> error list) outcome \<times> 's world" where
  "copy_leaf g srcF destPath w =
     (if \<not> Copyable srcF then (Ret ([], [Errorf ''%s is non-copyable'' [S (Name srcF)]]), w)
      else
        (case pathSplitter g destPath of
           (destDir, destBase) \<Rightarrow>
             (case remoteMkdirAll g (store w) destDir of
                ((destParent, destParErr), st) \<Rightarrow>
                  let w1 = emit (MkdirAll destDir) (w\<lparr>store := st\<rparr>) in
                  (case destParErr of
                     Some e \<Rightarrow> (Ret ([], [e]), w1)
                   | None \<Rightarrow>
                       (case destParent of
                          None \<Rightarrow> (Panic ''destParent'', w1)
                        | Some dp \<Rightarrow>
                            (case FindByPath (rem g) (store w1) destPath of
                               (destFiles, destErr) \<Rightarrow>
                                 if destErr \<noteq> None \<and> destErr \<noteq> Some ErrPathNotExists
                                 then (Ret ([], [the destErr]), w1)
                                 else
                                   (case copy_leaf_loop g srcF destFiles (Id_File dp) destBase
                                           [] [] w1 of
                                      (r, w2) \<Rightarrow> (Ret r, w2))))))))"

text \<open>
  \<^verbatim>\<open>Commands.copy\<close>, lines 361-429. The recursion follows the children that the store
  lists, which nothing bounds, so the model takes the depth it may recurse to as its first
  argument and answers \<open>OutOfFuel\<close> beyond it. The children, which the source receives
  from a channel, are the list that the store holds when the directory has been created.
  \<open>copy_children\<close> is the loop of lines 416-425.
\<close>

fun copy ::
  "nat \<Rightarrow> 's Commands \<Rightarrow> File option \<Rightarrow> string \<Rightarrow> 's world
    \<Rightarrow> (File option list \<times> error list) outcome \<times> 's world"
and copy_children ::
  "nat \<Rightarrow> 's Commands \<Rightarrow> string \<Rightarrow> File option list \<Rightarrow> 's world \<Rightarrow> unit outcome \<times> 's world"
where
  "copy 0 g srcF destPath w = (OutOfFuel, w)"
| "copy (Suc n) g srcF destPath w =
     (case srcF of
        None \<Rightarrow> (Ret ([], [Errorf ''non existant src'' []]), w)
      | Some s \<Rightarrow>
          if \<not> IsDir s then copy_leaf g s destPath w
          else
            (case remoteMkdirAll g (store w) destPath of
               ((destF, destErr), st) \<Rightarrow>
                 let w1 = emit (MkdirAll destPath) (w\<lparr>store := st\<rparr>) in
                 (case destErr of
                    Some e \<Rightarrow> (Ret ([], [e]), w1)
                  | None \<Rightarrow>
                      (case copy_children n g destPath
                              (findChildren (rem g) (store w1) (Id_File s) False) w1 of
                         (Ret u, w2) \<Rightarrow> (Ret ([destF], []), w2)
                       | (Panic v, w2) \<Rightarrow> (Panic v, w2)
                       | (OutOfFuel, w2) \<Rightarrow> (OutOfFuel, w2)))))"
| "copy_children n g destPath [] w = (Ret (), w)"
| "copy_children n g destPath (child # children) w =
     (case child of
        None \<Rightarrow> (Panic ''child'', w)
      | Some c \<Rightarrow>
          (let chName = sepJoin (pkg g) ''/'' destPath (Name c) in
           case copy n g child chName w of
             (Ret (copies, chErr), w1) \<Rightarrow>
               copy_children n g destPath children
                 (if chErr \<noteq> []
                  then emit (LogErrf ''copy: %s: %v\<newline>'' [S chName, EL chErr]) w1
                  else w1)
           | (Panic v, w1) \<Rightarrow> (Panic v, w1)
           | (OutOfFuel, w1) \<Rightarrow> (OutOfFuel, w1)))"

text \<open>
  \<^verbatim>\<open>copy_\<close>, lines 333-355: the loops over the source arguments and over the objects
  each resolves to. The source starts one goroutine for each object and waits for all of
  them; the model runs each to its end where it is started, which is one of the schedules
  the source allows.
\<close>

fun copy_srcFiles ::
  "nat \<Rightarrow> 's Commands \<Rightarrow> string \<Rightarrow> string \<Rightarrow> File option list \<Rightarrow> 's world
    \<Rightarrow> unit outcome \<times> 's world" where
  "copy_srcFiles fuel g fromPath toPath [] w = (Ret (), w)"
| "copy_srcFiles fuel g fromPath toPath (fromFile # srcFiles) w =
     (case copy fuel g fromFile toPath w of
        (Ret (copies, copyErr), w1) \<Rightarrow>
          copy_srcFiles fuel g fromPath toPath srcFiles
            (if copyErr \<noteq> []
             then emit (LogErrf ''%s: %v\<newline>'' [S fromPath, EL copyErr]) w1
             else w1)
      | (Panic v, w1) \<Rightarrow> (Panic v, w1)
      | (OutOfFuel, w1) \<Rightarrow> (OutOfFuel, w1))"

fun copy_sources ::
  "nat \<Rightarrow> 's Commands \<Rightarrow> string \<Rightarrow> bool \<Rightarrow> string list \<Rightarrow> 's world
    \<Rightarrow> unit outcome \<times> 's world" where
  "copy_sources fuel g destPath byIdFlag [] w = (Ret (), w)"
| "copy_sources fuel g destPath byIdFlag (srcPath # sources) w =
     (let srcResolver = (if byIdFlag then FindByIdMulti (rem g) else FindByPath (rem g)) in
      case srcResolver (store w) srcPath of
        (srcFiles, Some srcErr) \<Rightarrow>
          copy_sources fuel g destPath byIdFlag sources
            (emit (LogErrf ''%s: %v\<newline>'' [S srcPath, E srcErr]) w)
      | (srcFiles, None) \<Rightarrow>
          (case copy_srcFiles fuel g srcPath destPath srcFiles w of
             (Ret u, w1) \<Rightarrow> copy_sources fuel g destPath byIdFlag sources w1
           | (Panic v, w1) \<Rightarrow> (Panic v, w1)
           | (OutOfFuel, w1) \<Rightarrow> (OutOfFuel, w1)))"

text \<open>\<^verbatim>\<open>copy_\<close>, lines 311-359, as \<open>copy_impl\<close>.\<close>

definition copy_impl ::
  "nat \<Rightarrow> 's Commands \<Rightarrow> string \<Rightarrow> File option \<Rightarrow> string list \<Rightarrow> bool \<Rightarrow> 's world
    \<Rightarrow> error list outcome \<times> 's world" where
  "copy_impl fuel g destPath destF sources byIdFlag w =
     (let multiPaths = (length sources > 1) in
      if multiPaths \<and> destF \<noteq> None \<and> \<not> IsDir (the destF)
      then (Ret [Errorf ''%s: %v'' [S destPath, E ErrPathNotDir]], w)
      else
        (case (if multiPaths
               then (case remoteMkdirAll g (store w) destPath of
                       ((made, err), st) \<Rightarrow> (err, emit (MkdirAll destPath) (w\<lparr>store := st\<rparr>)))
               else (None, w)) of
           (Some err, w1) \<Rightarrow> (Ret [err], w1)
         | (None, w1) \<Rightarrow>
             (case copy_sources fuel g destPath byIdFlag sources w1 of
                (Ret u, w2) \<Rightarrow> (Ret [], w2)
              | (Panic v, w2) \<Rightarrow> (Panic v, w2)
              | (OutOfFuel, w2) \<Rightarrow> (OutOfFuel, w2))))"

text \<open>\<^verbatim>\<open>Commands.Copy\<close>, lines 297-306: the loop over the resolved destinations.\<close>

fun Copy_loop ::
  "nat \<Rightarrow> 's Commands \<Rightarrow> string \<Rightarrow> string list \<Rightarrow> bool \<Rightarrow> File option list \<Rightarrow> 's world
    \<Rightarrow> error option outcome \<times> 's world" where
  "Copy_loop fuel g destPath sources byIdFlag [] w = (Ret None, w)"
| "Copy_loop fuel g destPath sources byIdFlag (destF # destFiles) w =
     (case destF of
        None \<Rightarrow> Copy_loop fuel g destPath sources byIdFlag destFiles w
      | Some df \<Rightarrow>
          (case copy_impl fuel g destPath destF sources byIdFlag w of
             (Ret errs, w1) \<Rightarrow>
               Copy_loop fuel g destPath sources byIdFlag destFiles
                 (foldl (\<lambda>w2 err. emit (LogErrf ''copy_: %s %v\<newline>''
                                          [S (Id_File df), E err]) w2) w1 errs)
           | (Panic v, w1) \<Rightarrow> (Panic v, w1)
           | (OutOfFuel, w1) \<Rightarrow> (OutOfFuel, w1)))"

text \<open>
  \<^verbatim>\<open>Commands.Copy\<close>, lines 277-309. The deferred \<^verbatim>\<open>spin.stop()\<close> runs when
  \<^verbatim>\<open>Copy\<close> returns; a panic inside a goroutine ends the program without it.
\<close>

definition Copy ::
  "nat \<Rightarrow> 's Commands \<Rightarrow> bool \<Rightarrow> 's world \<Rightarrow> error option outcome \<times> 's world" where
  "Copy fuel g byIdFlag w =
     (let argc = length (Sources (opts g)) in
      if argc < 2
      then (Ret (Some (Errorf ''expecting src [src1....] dest got: %v''
                  [L (Sources (opts g))])), w)
      else
        (let w1 = emit SpinPlay (emit (Logln ''Processing...'') w);
             sources = take (argc - 1) (Sources (opts g));
             destPath = Sources (opts g) ! (argc - 1)
         in case FindByPath (rem g) (store w1) destPath of
              (destFiles, err) \<Rightarrow>
                if err \<noteq> None \<and> err \<noteq> Some ErrPathNotExists
                then (Ret (Some (Errorf ''destination: %s err: %v''
                             [S destPath, E (the err)])), emit SpinStop w1)
                else
                  (case Copy_loop fuel g destPath sources byIdFlag destFiles w1 of
                     (Ret r, w2) \<Rightarrow> (Ret r, emit SpinStop w2)
                   | (Panic v, w2) \<Rightarrow> (Panic v, w2)
                   | (OutOfFuel, w2) \<Rightarrow> (OutOfFuel, w2))))"

section \<open>A small remote for examples\<close>

text \<open>
  A store made of tables: what each path and each identifier resolves to, the children of
  each directory, the parent edges as pairs of a child and a parent identifier, and the
  directories that are read-only. Removing an edge that the store does not hold, or an edge
  to a read-only directory, is an error of the store and leaves it unchanged.
\<close>

record drive0 =
  byPath0 :: "(string \<times> File option list) list"
  byIds0 :: "(string \<times> File option list) list"
  children0 :: "(string \<times> File option list) list"
  parents0 :: "(string \<times> string) list"
  readonly0 :: "string list"

definition lookup0 ::
  "(string \<times> File option list) list \<Rightarrow> string \<Rightarrow> File option list \<times> error option" where
  "lookup0 tab p = (case map_of tab p of None \<Rightarrow> ([], Some ErrPathNotExists)
                                       | Some fs \<Rightarrow> (fs, None))"

definition dirname0 :: "string \<Rightarrow> string" where
  "dirname0 p = rev (drop 1 (dropWhile (\<lambda>c. c \<noteq> CHR ''/'') (rev p)))"

definition basename0 :: "string \<Rightarrow> string" where
  "basename0 p = rev (takeWhile (\<lambda>c. c \<noteq> CHR ''/'') (rev p))"

definition mkdirAll0 :: "drive0 \<Rightarrow> string \<Rightarrow> (File option \<times> error option) \<times> drive0" where
  "mkdirAll0 st p =
     (case map_of (byPath0 st) p of
        Some (Some f # fs) \<Rightarrow> ((Some f, None), st)
      | _ \<Rightarrow>
          (let d = \<lparr>Id_File = ''dir:'' @ p, Name = basename0 p, IsDir = True,
                    Copyable = False\<rparr>
           in ((Some d, None), st\<lparr>byPath0 := (p, [Some d]) # byPath0 st\<rparr>)))"

definition remote0 :: "drive0 Remote" where
  "remote0 =
     \<lparr>FindByPath = (\<lambda>st. lookup0 (byPath0 st)),
      FindByIdMulti = (\<lambda>st. lookup0 (byIds0 st)),
      findChildren = (\<lambda>st i hidden. case map_of (children0 st) i of None \<Rightarrow> [] | Some cs \<Rightarrow> cs),
      insertParent = (\<lambda>st c p. (None, st\<lparr>parents0 := parents0 st @ [(c, p)]\<rparr>)),
      rem_removeParent = (\<lambda>st c p.
         if (c, p) \<notin> set (parents0 st) then (Some (RemoteErr ''parent not found''), st)
         else if p \<in> set (readonly0 st) then (Some (RemoteErr ''permission denied''), st)
         else (None, st\<lparr>parents0 := removeAll (c, p) (parents0 st)\<rparr>)),
      rename = (\<lambda>st i n. ((None, None), st)),
      rem_copy = (\<lambda>st n p f.
         ((Some (f\<lparr>Id_File := ''copy:'' @ Id_File f, Name := n\<rparr>), None),
          st\<lparr>parents0 := parents0 st @ [(''copy:'' @ Id_File f, p)]\<rparr>))\<rparr>"

text \<open>
  Modelled from the spec: \<^verbatim>\<open>commonPrefix\<close> is defined outside \<^verbatim>\<open>move.go\<close>; section 4.2
  of the specification describes it as the longest common prefix of the two path strings,
  computed in time linear in the shorter one.
\<close>

fun commonPrefix0 :: "string \<Rightarrow> string \<Rightarrow> string" where
  "commonPrefix0 (x # xs) (y # ys) = (if x = y then x # commonPrefix0 xs ys else [])"
| "commonPrefix0 xs ys = []"

definition package0 :: package where
  "package0 =
     \<lparr>commonPrefix = commonPrefix0,
      filepath_Join = (\<lambda>a b. if a = [] then b else if b = [] then a else a @ ''/'' @ b),
      sepJoin = (\<lambda>sep a b. a @ sep @ b),
      urlToPath = (\<lambda>p fsBound. p),
      customQuote = (\<lambda>x. x),
      ForceKey = ''force''\<rparr>"

definition Commands0 :: "string list \<Rightarrow> bool \<Rightarrow> drive0 Commands" where
  "Commands0 args force =
     \<lparr>opts = \<lparr>Sources = args, Force = force, Path = []\<rparr>,
      rem = remote0,
      pkg = package0,
      parentPather = dirname0,
      pathSplitter = (\<lambda>p. (dirname0 p, basename0 p)),
      remoteMkdirAll = mkdirAll0\<rparr>"

definition file0 :: "string \<Rightarrow> string \<Rightarrow> File" where
  "file0 i n = \<lparr>Id_File = i, Name = n, IsDir = False, Copyable = True\<rparr>"

definition dir0 :: "string \<Rightarrow> string \<Rightarrow> File" where
  "dir0 i n = \<lparr>Id_File = i, Name = n, IsDir = True, Copyable = False\<rparr>"

definition world0 ::
  "(string \<times> File option list) list \<Rightarrow> (string \<times> string) list \<Rightarrow> drive0 world" where
  "world0 tab edges =
     \<lparr>store = \<lparr>byPath0 = tab, byIds0 = [], children0 = [], parents0 = edges,
                readonly0 = []\<rparr>,
      trace = []\<rparr>"

definition frozen0 :: "string list \<Rightarrow> drive0 world \<Rightarrow> drive0 world" where
  "frozen0 dirs w = w\<lparr>store := (store w)\<lparr>readonly0 := dirs\<rparr>\<rparr>"

text \<open>
  A file \<^verbatim>\<open>x/a.txt\<close> and two directories \<^verbatim>\<open>x\<close> and \<^verbatim>\<open>y\<close>; the first argument is
  what \<^verbatim>\<open>y/a.txt\<close> resolves to. \<open>opt_xy\<close> is the pair for moving the file into \<^verbatim>\<open>y\<close>.
\<close>

definition world_xy :: "File option list \<Rightarrow> (string \<times> string) list \<Rightarrow> drive0 world" where
  "world_xy occupants edges =
     world0 [(''x/a.txt'', [Some (file0 ''1'' ''a.txt'')]), (''x'', [Some (dir0 ''X'' ''x'')]),
             (''y'', [Some (dir0 ''Y'' ''y'')]), (''y/a.txt'', occupants)] edges"

definition opt_xy :: moveOpt where
  "opt_xy = \<lparr>src = ''x/a.txt'', dest = ''y'', byId = False,
             srcFile = Some (file0 ''1'' ''a.txt''), destFile = Some (dir0 ''Y'' ''y'')\<rparr>"

section \<open>Move: the loop over the sources\<close>

text \<open>With a destination that is not nil, \<open>move_impl\<close> returns: it cannot panic.\<close>

lemma oldParents_loop_Some:
  "oldParents_loop g (Some np) ops = Some r \<Longrightarrow> \<exists>e. r = Ret (Some e)"
  by (induction ops) (auto split: option.splits if_splits)

lemma oldParents_check_Some:
  "destFile opt = Some np \<Longrightarrow> oldParents_check g opt w = Some r \<Longrightarrow> \<exists>e. r = Ret e"
  by (auto simp: oldParents_check_def Let_def split: if_splits prod.splits
           dest: oldParents_loop_Some)

lemma move_edges_Ret:
  "destFile opt = Some np \<Longrightarrow> \<exists>r. fst (move_edges g opt f w) = Ret r"
  by (auto simp: move_edges_def Let_def split: prod.splits)

lemma move_impl_Ret:
  "destFile opt = Some np \<Longrightarrow> \<exists>r. fst (move_impl g opt w) = Ret r"
  unfolding move_impl_def Let_def
  using move_edges_Ret [of opt np g _ w] oldParents_check_Some [of opt np g w]
  by (auto split: option.splits prod.splits)

lemma move_newParents_Ret:
  "\<exists>r. fst (move_newParents g opt srcF nps errs w) = Ret r"
proof (induction nps arbitrary: opt errs w)
  case Nil
  show ?case by simp
next
  case (Cons p ps)
  show ?case
  proof (cases "p = None \<or> \<not> IsDir (the p)")
    case True
    then show ?thesis using Cons.IH by simp
  next
    case False
    then obtain np where p: "p = Some np" by auto
    let ?opt1 = "opt\<lparr>srcFile := srcF, destFile := p\<rparr>"
    obtain r where r: "fst (move_impl g ?opt1 w) = Ret r"
      using move_impl_Ret [of ?opt1 np g w] p by auto
    then obtain w1 where m: "move_impl g ?opt1 w = (Ret r, w1)"
      by (cases "move_impl g ?opt1 w") auto
    show ?thesis using False m Cons.IH by (cases r) (simp_all add: Let_def)
  qed
qed

lemma move_sources_Ret:
  "\<exists>r. fst (move_sources g opt srcs nps errs w) = Ret r"
proof (induction srcs arbitrary: opt errs w)
  case Nil
  show ?case by simp
next
  case (Cons s ss)
  obtain r w1 where m: "move_newParents g opt s nps errs w = (Ret r, w1)"
    using move_newParents_Ret [of g opt s nps errs w]
    by (cases "move_newParents g opt s nps errs w") auto
  show ?case using m Cons.IH by (cases r) simp
qed

lemma move_Ret: "\<exists>errs. fst (move g opt w) = Ret errs"
  unfolding move_def Let_def using move_sources_Ret
  by (auto split: prod.splits option.splits)

lemma Move_loop_step:
  "commonPrefix (pkg g) s d \<noteq> s \<Longrightarrow>
   Move_loop g b d (s # rest) w = Move_loop g b d rest (Move_attempt g b d s w)"
proof -
  let ?opt = "\<lparr>src = s, dest = d, byId = b, srcFile = None, destFile = None\<rparr>"
  assume a: "commonPrefix (pkg g) s d \<noteq> s"
  obtain errs w1 where m: "move g ?opt w = (Ret errs, w1)"
    using move_Ret [of g ?opt w] by (cases "move g ?opt w") auto
  show ?thesis using a m by (simp add: Move_attempt_def)
qed


lemma Move_loop_nested:
  "commonPrefix (pkg g) s d = s \<Longrightarrow>
   Move_loop g b d (s # post) w =
     (Ret (Some (Errorf ''%s cannot be nested into %s'' [S s, S d])), w)"
  by simp

lemma Move_loop_append_pass:
  "\<forall>s\<in>set pre. commonPrefix (pkg g) s d \<noteq> s \<Longrightarrow>
   Move_loop g b d (pre @ rest) w =
   Move_loop g b d rest (foldl (\<lambda>w1 s. Move_attempt g b d s w1) w pre)"
  by (induction pre arbitrary: w) (simp_all add: Move_loop_step del: Move_loop.simps(2))

lemma Move_loop_stops:
  "commonPrefix (pkg g) s d = s \<Longrightarrow>
   (\<exists>e. fst (Move_loop g b d (pre @ s # post) w) = Ret (Some e)) \<and>
   snd (Move_loop g b d (pre @ s # post) w) = snd (Move_loop g b d pre w)"
proof (induction pre arbitrary: w)
  case Nil
  then show ?case by simp
next
  case (Cons p pre)
  show ?case
  proof (cases "commonPrefix (pkg g) p d = p")
    case True
    then show ?thesis by simp
  next
    case False
    then show ?thesis using Cons.IH [OF Cons.prems] by (simp add: Move_loop_step del: Move_loop.simps(2))
  qed
qed

lemma Move_sources_split:
  "Sources (opts g) = rest @ [d] \<Longrightarrow> rest \<noteq> [] \<Longrightarrow> Move g b w = Move_loop g b d rest w"
  by (cases rest) (simp_all add: Move_def Let_def nth_append)



lemmas example_defs = Commands0_def remote0_def package0_def world0_def frozen0_def file0_def dir0_def
  lookup0_def dirname0_def basename0_def mkdirAll0_def emit_def Let_def

lemmas pair_defs = move_impl_def oldParents_check_def move_edges_def removeParent_def

text \<open>
  C2. When the common prefix of a source argument and the destination is the whole source
  argument, \<open>Move\<close> returns an error, and the world it leaves is the one reached after the
  source arguments before that one: for that source the store is not changed and no call
  is issued. If the arguments before it pass the check, the error is the one naming that
  source and the destination.
\<close>

theorem Move_rejects_nesting:
  assumes "Sources (opts g) = pre @ s # post @ [d]"
    and "commonPrefix (pkg g) s d = s"
  shows "(\<exists>e. fst (Move g b w) = Ret (Some e)) \<and>
         snd (Move g b w) = snd (Move_loop g b d pre w) \<and>
         ((\<forall>p\<in>set pre. commonPrefix (pkg g) p d \<noteq> p) \<longrightarrow>
            Move g b w =
              (Ret (Some (Errorf ''%s cannot be nested into %s'' [S s, S d])),
               foldl (\<lambda>w1 p. Move_attempt g b d p w1) w pre))"
proof -
  have m: "Move g b w = Move_loop g b d (pre @ s # post) w"
    using Move_sources_split [of g "pre @ s # post" d b w] assms(1) by simp
  have "(\<forall>p\<in>set pre. commonPrefix (pkg g) p d \<noteq> p) \<longrightarrow>
        Move_loop g b d (pre @ s # post) w =
          (Ret (Some (Errorf ''%s cannot be nested into %s'' [S s, S d])),
           foldl (\<lambda>w1 p. Move_attempt g b d p w1) w pre)"
    using assms(2) by (simp add: Move_loop_append_pass)
  then show ?thesis
    using Move_loop_stops [OF assms(2), of b pre post w] m by simp
qed

theorem Move_rejects_nesting_witness:
  "Sources (opts (Commands0 [''docs'', ''docs/old''] True)) = [] @ ''docs'' # [] @ [''docs/old''] \<and>
   commonPrefix (pkg (Commands0 [''docs'', ''docs/old''] True)) ''docs'' ''docs/old'' = ''docs'' \<and>
   Move (Commands0 [''docs'', ''docs/old''] True) False
     (world0 [(''docs'', [Some (dir0 ''D'' ''docs'')]),
              (''docs/old'', [Some (dir0 ''O'' ''old'')])] [(''O'', ''D'')]) =
     (Ret (Some (Errorf ''%s cannot be nested into %s'' [S ''docs'', S ''docs/old''])),
      world0 [(''docs'', [Some (dir0 ''D'' ''docs'')]),
              (''docs/old'', [Some (dir0 ''O'' ''old'')])] [(''O'', ''D'')])"
proof -
  let ?g = "Commands0 [''docs'', ''docs/old''] True"
  have h1: "Sources (opts ?g) = [] @ ''docs'' # [] @ [''docs/old'']"
    by (simp add: Commands0_def)
  have h2: "commonPrefix (pkg ?g) ''docs'' ''docs/old'' = ''docs''"
    by (simp add: Commands0_def package0_def)
  show ?thesis
    using h1 h2 Move_rejects_nesting [OF h1 h2, of False] by simp
qed






section \<open>Move: removing the old parent edges\<close>

lemma removeParent_loop_append:
  "removeParent_loop g fileId rel pp (map Some ps @ rest) w =
   removeParent_loop g fileId rel pp rest
     (snd (removeParent_loop g fileId rel pp (map Some ps) w))"
  by (induction ps arbitrary: w) (simp_all add: Let_def split: prod.splits)

lemma removeParent_loop_trace:
  "\<exists>evs. trace (snd (removeParent_loop g fileId rel pp parents w)) = trace w @ evs \<and>
         (\<forall>ev\<in>set evs.
            (\<exists>q. Some q \<in> set parents \<and> ev = RemoveParent fileId (Id_File q)) \<or>
            (\<exists>e. ev = LogErrf ''removeParent:: %s %s %v\<newline>'' [S fileId, S rel, E e]))"
proof (induction parents arbitrary: w)
  case Nil
  show ?case by simp
next
  case (Cons x xs)
  show ?case
  proof (cases x)
    case None
    then show ?thesis by simp
  next
    case (Some p)
    obtain err st where r: "rem_removeParent (rem g) (store w) fileId (Id_File p) = (err, st)"
      by (cases "rem_removeParent (rem g) (store w) fileId (Id_File p)")
    let ?w1 = "emit (RemoveParent fileId (Id_File p)) (w\<lparr>store := st\<rparr>)"
    let ?w2 = "case err of None \<Rightarrow> ?w1
               | Some e \<Rightarrow> emit (LogErrf ''removeParent:: %s %s %v\<newline>''
                                  [S fileId, S rel, E e]) ?w1"
    have step: "removeParent_loop g fileId rel pp (x # xs) w =
                removeParent_loop g fileId rel pp xs ?w2"
      using Some r by (simp add: Let_def)
    obtain evs where evs: "trace (snd (removeParent_loop g fileId rel pp xs ?w2)) = trace ?w2 @ evs"
      and all: "\<forall>ev\<in>set evs.
            (\<exists>q. Some q \<in> set xs \<and> ev = RemoveParent fileId (Id_File q)) \<or>
            (\<exists>e. ev = LogErrf ''removeParent:: %s %s %v\<newline>'' [S fileId, S rel, E e])"
      using Cons.IH [of ?w2] by blast
    have t2: "trace ?w2 = trace w @ RemoveParent fileId (Id_File p) #
                (case err of None \<Rightarrow> []
                 | Some e \<Rightarrow> [LogErrf ''removeParent:: %s %s %v\<newline>''
                                [S fileId, S rel, E e]])"
      by (cases err) (simp_all add: emit_def)
    let ?evs = "RemoveParent fileId (Id_File p) #
                (case err of None \<Rightarrow> []
                 | Some e \<Rightarrow> [LogErrf ''removeParent:: %s %s %v\<newline>''
                                [S fileId, S rel, E e]]) @ evs"
    have "trace (snd (removeParent_loop g fileId rel pp (x # xs) w)) = trace w @ ?evs"
      unfolding step evs t2 by simp
    moreover have "\<forall>ev\<in>set ?evs.
            (\<exists>q. Some q \<in> set (x # xs) \<and> ev = RemoveParent fileId (Id_File q)) \<or>
            (\<exists>e. ev = LogErrf ''removeParent:: %s %s %v\<newline>'' [S fileId, S rel, E e])"
      using all Some by (cases err) auto
    ultimately show ?thesis by blast
  qed
qed

lemma removeParent_loop_result:
  "fst (removeParent_loop g fileId rel pp parents w) =
     (if None \<in> set parents
      then Some (Errorf ''non existant parent '%s' for src'' [S pp]) else None)"
  by (induction parents arbitrary: w) (auto simp: Let_def split: option.splits prod.splits)


lemma oldParents_loop_None:
  "oldParents_loop g (Some np) olds = None \<Longrightarrow>
   \<forall>q. Some q \<in> set olds \<longrightarrow> Id_File q \<noteq> Id_File np"
  by (induction olds) (auto split: option.splits if_splits)

lemma oldParents_check_distinct:
  "\<not> byId opt \<Longrightarrow> destFile opt = Some np \<Longrightarrow> oldParents_check g opt w = None \<Longrightarrow>
   \<forall>q. Some q \<in> set (fst (FindByPath (rem g) (store w) (parentPather g (src opt)))) \<longrightarrow>
       Id_File q \<noteq> Id_File np"
  using oldParents_loop_None [of g np]
  by (auto simp: oldParents_check_def Let_def split: prod.splits if_splits)


section \<open>Move: one pair of a source and a destination\<close>

lemma oldParents_loop_not_success: "oldParents_loop g np olds \<noteq> Some (Ret None)"
  by (induction olds) (auto split: option.splits)

lemma oldParents_check_not_success: "oldParents_check g opt w \<noteq> Some (Ret None)"
  by (auto simp: oldParents_check_def Let_def oldParents_loop_not_success split: prod.splits)

lemma dupChecks_loop_self:
  "Some d \<in> set dups \<Longrightarrow> Id_File d = Id_File f \<Longrightarrow> dupChecks_loop g f p dups \<noteq> None"
  by (induction dups) (auto split: option.splits)

lemma dupChecks_loop_first_self:
  "dropWhile (\<lambda>x. x = None) dups = Some d # others \<Longrightarrow> Id_File d = Id_File f \<Longrightarrow>
   dupChecks_loop g f p dups =
     Some (Errorf ''move: trying to move fileId:%s to self fileId:%s''
             [S (customQuote (pkg g) (Id_File d)), S (customQuote (pkg g) (Id_File f))])"
  by (induction dups) (auto split: option.splits if_splits)

text \<open>
  C1, as the code has it. When an object found at the exact destination path (the
  destination joined with the name of the source) has the identity of the source, the move
  of the pair does not succeed, and it leaves the world as it was: no edge is inserted or
  removed. When the pair reaches the duplicate check and that object is the first one
  found there, what \<open>move_impl\<close> returns is the error of line 143, a move to self.
\<close>

theorem move_onto_self_fails:
  assumes "srcFile opt = Some f"
    and "FindByPath (rem g) (store w) (filepath_Join (pkg g) (dest opt) (Name f)) = (dups, err)"
    and "Some d \<in> set dups"
    and "Id_File d = Id_File f"
  shows "fst (move_impl g opt w) \<noteq> Ret None \<and>
         snd (move_impl g opt w) = w \<and>
         (oldParents_check g opt w = None \<longrightarrow>
          (err = None \<or> err = Some ErrPathNotExists) \<longrightarrow>
          dropWhile (\<lambda>x. x = None) dups = Some d # others \<longrightarrow>
            move_impl g opt w =
              (Ret (Some (Errorf ''move: trying to move fileId:%s to self fileId:%s''
                     [S (customQuote (pkg g) (Id_File d)),
                      S (customQuote (pkg g) (Id_File f))])), w))"
proof -
  let ?p = "filepath_Join (pkg g) (dest opt) (Name f)"
  have loop: "dupChecks_loop g f ?p dups \<noteq> None"
    using assms(3,4) by (rule dupChecks_loop_self)
  have first: "dropWhile (\<lambda>x. x = None) dups = Some d # others \<Longrightarrow>
        dupChecks_loop g f ?p dups =
          Some (Errorf ''move: trying to move fileId:%s to self fileId:%s''
                  [S (customQuote (pkg g) (Id_File d)), S (customQuote (pkg g) (Id_File f))])"
    using dupChecks_loop_first_self [of dups d others f g ?p] assms(4) by simp
  show ?thesis
  proof (cases "oldParents_check g opt w")
    case (Some r)
    then have "r \<noteq> Ret None" using oldParents_check_not_success [of g opt w] by auto
    then show ?thesis using Some assms(1) by (simp add: move_impl_def)
  next
    case None
    show ?thesis
    proof (cases "err \<noteq> None \<and> err \<noteq> Some ErrPathNotExists")
      case True
      then show ?thesis using None assms(1,2) by (auto simp: move_impl_def Let_def)
    next
      case False
      obtain e where e: "dupChecks_loop g f ?p dups = Some e" using loop by auto
      have "move_impl g opt w = (Ret (Some e), w)"
        using None False assms(1,2) e by (auto simp: move_impl_def Let_def)
      then show ?thesis using first e by auto
    qed
  qed
qed

theorem move_onto_self_fails_witness:
  "srcFile opt_xy = Some (file0 ''1'' ''a.txt'') \<and>
   FindByPath (rem (Commands0 [''x/a.txt'', ''y''] True))
     (store (world_xy [None, Some (file0 ''1'' ''a.txt'')] [(''1'', ''X''), (''1'', ''Y'')]))
     (filepath_Join (pkg (Commands0 [''x/a.txt'', ''y''] True)) (dest opt_xy)
        (Name (file0 ''1'' ''a.txt''))) =
     ([None, Some (file0 ''1'' ''a.txt'')], None) \<and>
   move_impl (Commands0 [''x/a.txt'', ''y''] True) opt_xy
     (world_xy [None, Some (file0 ''1'' ''a.txt'')] [(''1'', ''X''), (''1'', ''Y'')]) =
     (Ret (Some (Errorf ''move: trying to move fileId:%s to self fileId:%s''
            [S ''1'', S ''1''])),
      world_xy [None, Some (file0 ''1'' ''a.txt'')] [(''1'', ''X''), (''1'', ''Y'')])"
proof -
  let ?g = "Commands0 [''x/a.txt'', ''y''] True"
  let ?f = "file0 ''1'' ''a.txt''"
  let ?w = "world_xy [None, Some ?f] [(''1'', ''X''), (''1'', ''Y'')]"
  have h1: "srcFile opt_xy = Some ?f"
    by (simp add: opt_xy_def)
  have h2: "FindByPath (rem ?g) (store ?w)
              (filepath_Join (pkg ?g) (dest opt_xy) (Name ?f)) = ([None, Some ?f], None)"
    by (simp add: example_defs world_xy_def opt_xy_def)
  have h3: "Some ?f \<in> set [None, Some ?f]"
    by simp
  have g1: "oldParents_check ?g opt_xy ?w = None"
    by (simp add: example_defs world_xy_def opt_xy_def oldParents_check_def)
  have g2: "dropWhile (\<lambda>x. x = None) [None, Some ?f] = Some ?f # []"
    by simp
  have q: "customQuote (pkg ?g) (Id_File ?f) = ''1''"
    by (simp add: example_defs)
  have "move_impl ?g opt_xy ?w =
          (Ret (Some (Errorf ''move: trying to move fileId:%s to self fileId:%s''
                 [S (customQuote (pkg ?g) (Id_File ?f)),
                  S (customQuote (pkg ?g) (Id_File ?f))])), ?w)"
    using move_onto_self_fails [OF h1 h2 h3 refl, of "[]"] g1 g2 by blast
  then show ?thesis using h1 h2 q by simp
qed

theorem move_onto_self_counterexample:
  "FindByPath (rem (Commands0 [''x/a.txt'', ''y''] False))
     (store (world_xy [Some (file0 ''1'' ''a.txt'')] [(''1'', ''X''), (''1'', ''Y'')]))
     ''y/a.txt'' = ([Some (file0 ''1'' ''a.txt'')], None) \<and>
   move_impl (Commands0 [''x/a.txt'', ''y''] False) opt_xy
     (world_xy [Some (file0 ''1'' ''a.txt'')] [(''1'', ''X''), (''1'', ''Y'')]) =
     (Ret (Some (Errorf ''move: trying to move fileId:%s to self fileId:%s''
            [S ''1'', S ''1''])),
      world_xy [Some (file0 ''1'' ''a.txt'')] [(''1'', ''X''), (''1'', ''Y'')])"
  by (simp add: example_defs world_xy_def opt_xy_def pair_defs)






lemma move_impl_reaches_edges:
  assumes "srcFile opt = Some f"
    and "oldParents_check g opt w = None"
    and "FindByPath (rem g) (store w) (filepath_Join (pkg g) (dest opt) (Name f)) = (dups, err)"
    and "err = None \<or> err = Some ErrPathNotExists"
    and "dupChecks_loop g f (filepath_Join (pkg g) (dest opt) (Name f)) dups = None"
  shows "move_impl g opt w = move_edges g opt f w"
  using assms by (auto simp: move_impl_def Let_def)

text \<open>
  C6, as the code has it. A pair moved by path that reaches the edge mutations and whose
  new parent edge is inserted without error. After the insertion the old parent path
  resolves, without error, to objects \<open>ps1\<close>, then an object \<open>p\<close>, then the entries
  \<open>rest\<close>; the removal of the old edge to \<open>p\<close> fails in the store with \<open>e\<close>, in the
  world \<open>wk\<close> that the removals before it have left.

  The failure is only logged and the loop goes on with \<open>rest\<close>, from the store as the
  failed call has left it, where the old edge may still be. \<open>move_impl\<close> returns nil
  unless \<open>rest\<close> holds a nil entry; then it returns the error of line 175. After the
  insertion the trace holds the removals before \<open>p\<close>, the failed removal and the line that
  logs \<open>e\<close>, and what the loop does for \<open>rest\<close>: removals of edges to old parents and
  log lines, nothing else. So no call takes the inserted edge away, unless the store lists
  the destination itself among the old parents after the insertion; lines 119-125 exclude
  that when the old parent path resolves after the insertion as it did before.
\<close>

theorem move_removal_failure_only_logged:
  assumes "\<not> byId opt"
    and "srcFile opt = Some f"
    and "destFile opt = Some np"
    and "oldParents_check g opt w = None"
    and "FindByPath (rem g) (store w) (filepath_Join (pkg g) (dest opt) (Name f)) = (dups, err)"
    and "err = None \<or> err = Some ErrPathNotExists"
    and "dupChecks_loop g f (filepath_Join (pkg g) (dest opt) (Name f)) dups = None"
    and "Id_File f \<noteq> Id_File np"
    and "insertParent (rem g) (store w) (Id_File f) (Id_File np) = (None, st1)"
    and "FindByPath (rem g) st1 (parentPather g (src opt)) =
           (map Some ps1 @ Some p # rest, None)"
    and "removeParent_loop g (Id_File f) (src opt) (parentPather g (src opt)) (map Some ps1)
           (emit (InsertParent (Id_File f) (Id_File np)) (w\<lparr>store := st1\<rparr>)) = (r, wk)"
    and "rem_removeParent (rem g) (store wk) (Id_File f) (Id_File p) = (Some e, stk)"
  shows "fst (move_impl g opt w) =
           Ret (if None \<in> set rest
                then Some (Errorf ''non existant parent '%s' for src''
                             [S (parentPather g (src opt))])
                else None) \<and>
         snd (move_impl g opt w) =
           snd (removeParent_loop g (Id_File f) (src opt) (parentPather g (src opt)) rest
                  (emit (LogErrf ''removeParent:: %s %s %v\<newline>''
                           [S (Id_File f), S (src opt), E e])
                     (emit (RemoveParent (Id_File f) (Id_File p)) (wk\<lparr>store := stk\<rparr>)))) \<and>
         (\<exists>evs1 evs2.
            trace (snd (move_impl g opt w)) =
              trace w @ InsertParent (Id_File f) (Id_File np) # evs1 @
                RemoveParent (Id_File f) (Id_File p) #
                LogErrf ''removeParent:: %s %s %v\<newline>'' [S (Id_File f), S (src opt), E e] #
                evs2 \<and>
            (\<forall>ev\<in>set (evs1 @ evs2).
               (\<exists>q. (q \<in> set ps1 \<or> Some q \<in> set rest) \<and>
                    ev = RemoveParent (Id_File f) (Id_File q)) \<or>
               (\<exists>e1. ev = LogErrf ''removeParent:: %s %s %v\<newline>''
                             [S (Id_File f), S (src opt), E e1])) \<and>
            (fst (FindByPath (rem g) (store w) (parentPather g (src opt))) =
                map Some ps1 @ Some p # rest \<or>
             (\<forall>q. Some q \<in> set (map Some ps1 @ Some p # rest) \<longrightarrow>
                  Id_File q \<noteq> Id_File np) \<longrightarrow>
             RemoveParent (Id_File f) (Id_File np) \<notin>
               set (evs1 @ RemoveParent (Id_File f) (Id_File p) #
                      LogErrf ''removeParent:: %s %s %v\<newline>''
                        [S (Id_File f), S (src opt), E e] # evs2)))"
proof -
  let ?fid = "Id_File f"
  let ?pp = "parentPather g (src opt)"
  let ?w1 = "emit (InsertParent ?fid (Id_File np)) (w\<lparr>store := st1\<rparr>)"
  let ?log = "LogErrf ''removeParent:: %s %s %v\<newline>'' [S ?fid, S (src opt), E e]"
  let ?wk2 = "emit ?log (emit (RemoveParent ?fid (Id_File p)) (wk\<lparr>store := stk\<rparr>))"
  let ?loop = "removeParent_loop g ?fid (src opt) ?pp"
  let ?all = "map Some ps1 @ Some p # rest"
  have st1: "store ?w1 = st1" by (simp add: emit_def)
  have edges: "move_impl g opt w = move_edges g opt f w"
    using assms(2,4,5,6,7) by (rule move_impl_reaches_edges)
  have rp: "removeParent g ?fid (src opt) ?w1 = ?loop ?all ?w1"
    using assms(10) st1 by (simp add: removeParent_def Let_def)
  have me: "move_edges g opt f w = (Ret (fst (?loop ?all ?w1)), snd (?loop ?all ?w1))"
    using assms(1,3,8,9) rp by (simp add: move_edges_def Let_def split: prod.splits)
  have "?loop ?all ?w1 = ?loop (Some p # rest) wk"
    using removeParent_loop_append [of g ?fid "src opt" ?pp ps1 "Some p # rest" ?w1]
      assms(11) by simp
  also have "\<dots> = ?loop rest ?wk2"
    using assms(12) by (simp add: Let_def)
  finally have loop: "?loop ?all ?w1 = ?loop rest ?wk2" .
  have A: "fst (move_impl g opt w) =
             Ret (if None \<in> set rest
                  then Some (Errorf ''non existant parent '%s' for src'' [S ?pp]) else None)"
    using edges me loop removeParent_loop_result [of g ?fid "src opt" ?pp rest ?wk2] by simp
  have B: "snd (move_impl g opt w) = snd (?loop rest ?wk2)"
    using edges me loop by simp
  obtain evs1 where e1: "trace wk = trace ?w1 @ evs1"
    and a1: "\<forall>ev\<in>set evs1.
            (\<exists>q. Some q \<in> set (map Some ps1) \<and> ev = RemoveParent ?fid (Id_File q)) \<or>
            (\<exists>e1. ev = LogErrf ''removeParent:: %s %s %v\<newline>'' [S ?fid, S (src opt), E e1])"
    using removeParent_loop_trace [of g ?fid "src opt" ?pp "map Some ps1" ?w1] assms(11)
    by auto
  obtain evs2 where e2: "trace (snd (?loop rest ?wk2)) = trace ?wk2 @ evs2"
    and a2: "\<forall>ev\<in>set evs2.
            (\<exists>q. Some q \<in> set rest \<and> ev = RemoveParent ?fid (Id_File q)) \<or>
            (\<exists>e1. ev = LogErrf ''removeParent:: %s %s %v\<newline>'' [S ?fid, S (src opt), E e1])"
    using removeParent_loop_trace [of g ?fid "src opt" ?pp rest ?wk2] by blast
  have t: "trace (snd (move_impl g opt w)) =
             trace w @ InsertParent ?fid (Id_File np) # evs1 @
               RemoveParent ?fid (Id_File p) # ?log # evs2"
    unfolding B e2 using e1 by (simp add: emit_def)
  have all: "\<forall>ev\<in>set (evs1 @ evs2).
               (\<exists>q. (q \<in> set ps1 \<or> Some q \<in> set rest) \<and> ev = RemoveParent ?fid (Id_File q)) \<or>
               (\<exists>e1. ev = LogErrf ''removeParent:: %s %s %v\<newline>''
                             [S ?fid, S (src opt), E e1])"
    using a1 a2 by auto
  have keep: "RemoveParent ?fid (Id_File np) \<notin>
                set (evs1 @ RemoveParent ?fid (Id_File p) # ?log # evs2)"
    if c: "fst (FindByPath (rem g) (store w) ?pp) = ?all \<or>
           (\<forall>q. Some q \<in> set ?all \<longrightarrow> Id_File q \<noteq> Id_File np)"
  proof -
    have d: "\<forall>q. Some q \<in> set ?all \<longrightarrow> Id_File q \<noteq> Id_File np"
      using c oldParents_check_distinct [OF assms(1,3,4)] by auto
    then have np: "Id_File p \<noteq> Id_File np"
      and others: "\<And>q. q \<in> set ps1 \<or> Some q \<in> set rest \<Longrightarrow> Id_File q \<noteq> Id_File np"
      by auto
    show ?thesis
    proof
      assume "RemoveParent ?fid (Id_File np) \<in>
                set (evs1 @ RemoveParent ?fid (Id_File p) # ?log # evs2)"
      then have "RemoveParent ?fid (Id_File np) \<in> set (evs1 @ evs2)"
        using np by auto
      then have "(\<exists>q. (q \<in> set ps1 \<or> Some q \<in> set rest) \<and>
                     RemoveParent ?fid (Id_File np) = RemoveParent ?fid (Id_File q)) \<or>
                 (\<exists>e1. RemoveParent ?fid (Id_File np) =
                         LogErrf ''removeParent:: %s %s %v\<newline>''
                           [S ?fid, S (src opt), E e1])"
        using all by (rule bspec [rotated])
      then obtain q where "q \<in> set ps1 \<or> Some q \<in> set rest"
        and "Id_File np = Id_File q"
        by auto
      then show False using others [of q] by simp
    qed
  qed
  have C: "\<exists>evs1 evs2.
            trace (snd (move_impl g opt w)) =
              trace w @ InsertParent ?fid (Id_File np) # evs1 @
                RemoveParent ?fid (Id_File p) # ?log # evs2 \<and>
            (\<forall>ev\<in>set (evs1 @ evs2).
               (\<exists>q. (q \<in> set ps1 \<or> Some q \<in> set rest) \<and>
                    ev = RemoveParent ?fid (Id_File q)) \<or>
               (\<exists>e1. ev = LogErrf ''removeParent:: %s %s %v\<newline>''
                             [S ?fid, S (src opt), E e1])) \<and>
            (fst (FindByPath (rem g) (store w) ?pp) = ?all \<or>
             (\<forall>q. Some q \<in> set ?all \<longrightarrow> Id_File q \<noteq> Id_File np) \<longrightarrow>
             RemoveParent ?fid (Id_File np) \<notin>
               set (evs1 @ RemoveParent ?fid (Id_File p) # ?log # evs2))"
  proof (intro exI conjI impI)
    show "trace (snd (move_impl g opt w)) =
              trace w @ InsertParent ?fid (Id_File np) # evs1 @
                RemoveParent ?fid (Id_File p) # ?log # evs2"
      by (rule t)
    show "\<forall>ev\<in>set (evs1 @ evs2).
               (\<exists>q. (q \<in> set ps1 \<or> Some q \<in> set rest) \<and>
                    ev = RemoveParent ?fid (Id_File q)) \<or>
               (\<exists>e1. ev = LogErrf ''removeParent:: %s %s %v\<newline>''
                             [S ?fid, S (src opt), E e1])"
      by (rule all)
    show "RemoveParent ?fid (Id_File np) \<notin>
               set (evs1 @ RemoveParent ?fid (Id_File p) # ?log # evs2)"
      if "fst (FindByPath (rem g) (store w) ?pp) = ?all \<or>
          (\<forall>q. Some q \<in> set ?all \<longrightarrow> Id_File q \<noteq> Id_File np)"
      using that by (rule keep)
  qed
  from A B C show ?thesis
    by (intro conjI)
qed

theorem move_removal_failure_only_logged_witness:
  "\<not> byId opt_xy \<and>
   insertParent (rem (Commands0 [''x/a.txt'', ''y''] False))
     (store (frozen0 [''X''] (world_xy [] [(''1'', ''X'')]))) ''1'' ''Y'' =
     (None, (store (frozen0 [''X''] (world_xy [] [(''1'', ''X'')])))
              \<lparr>parents0 := [(''1'', ''X''), (''1'', ''Y'')]\<rparr>) \<and>
   FindByPath (rem (Commands0 [''x/a.txt'', ''y''] False))
     ((store (frozen0 [''X''] (world_xy [] [(''1'', ''X'')])))
        \<lparr>parents0 := [(''1'', ''X''), (''1'', ''Y'')]\<rparr>) ''x'' =
     ([Some (dir0 ''X'' ''x'')], None) \<and>
   rem_removeParent (rem (Commands0 [''x/a.txt'', ''y''] False))
     ((store (frozen0 [''X''] (world_xy [] [(''1'', ''X'')])))
        \<lparr>parents0 := [(''1'', ''X''), (''1'', ''Y'')]\<rparr>) ''1'' ''X'' =
     (Some (RemoteErr ''permission denied''),
      (store (frozen0 [''X''] (world_xy [] [(''1'', ''X'')])))
        \<lparr>parents0 := [(''1'', ''X''), (''1'', ''Y'')]\<rparr>) \<and>
   move_impl (Commands0 [''x/a.txt'', ''y''] False) opt_xy
     (frozen0 [''X''] (world_xy [] [(''1'', ''X'')])) =
     (Ret None,
      \<lparr>store = (store (frozen0 [''X''] (world_xy [] [(''1'', ''X'')])))
                 \<lparr>parents0 := [(''1'', ''X''), (''1'', ''Y'')]\<rparr>,
       trace = [InsertParent ''1'' ''Y'', RemoveParent ''1'' ''X'',
                LogErrf ''removeParent:: %s %s %v\<newline>''
                  [S ''1'', S ''x/a.txt'', E (RemoteErr ''permission denied'')]]\<rparr>)"
proof -
  let ?g = "Commands0 [''x/a.txt'', ''y''] False"
  let ?f = "file0 ''1'' ''a.txt''"
  let ?np = "dir0 ''Y'' ''y''"
  let ?p = "dir0 ''X'' ''x''"
  let ?w = "frozen0 [''X''] (world_xy [] [(''1'', ''X'')])"
  let ?st1 = "(store ?w)\<lparr>parents0 := [(''1'', ''X''), (''1'', ''Y'')]\<rparr>"
  let ?w1 = "emit (InsertParent (Id_File ?f) (Id_File ?np)) (?w\<lparr>store := ?st1\<rparr>)"
  let ?e = "RemoteErr ''permission denied''"
  have ids: "Id_File ?f = ''1''" "Id_File ?np = ''Y''" "Id_File ?p = ''X''"
    and sp: "src opt_xy = ''x/a.txt''"
    by (simp_all add: file0_def dir0_def opt_xy_def)
  have h1: "\<not> byId opt_xy" and h2: "srcFile opt_xy = Some ?f"
    and h3: "destFile opt_xy = Some ?np"
    by (simp_all add: opt_xy_def)
  have h4: "oldParents_check ?g opt_xy ?w = None"
    by (simp add: example_defs world_xy_def opt_xy_def oldParents_check_def)
  have h5: "FindByPath (rem ?g) (store ?w)
              (filepath_Join (pkg ?g) (dest opt_xy) (Name ?f)) = ([], None)"
    by (simp add: example_defs world_xy_def opt_xy_def)
  have h6: "None = None \<or> None = Some ErrPathNotExists"
    by simp
  have h7: "dupChecks_loop ?g ?f (filepath_Join (pkg ?g) (dest opt_xy) (Name ?f)) [] = None"
    by simp
  have h8: "Id_File ?f \<noteq> Id_File ?np"
    by (simp add: ids)
  have h9: "insertParent (rem ?g) (store ?w) (Id_File ?f) (Id_File ?np) = (None, ?st1)"
    by (simp add: example_defs world_xy_def)
  have h10: "FindByPath (rem ?g) ?st1 (parentPather ?g (src opt_xy)) =
               (map Some [] @ Some ?p # [], None)"
    by (simp add: example_defs world_xy_def opt_xy_def)
  have h11: "removeParent_loop ?g (Id_File ?f) (src opt_xy) (parentPather ?g (src opt_xy))
               (map Some []) ?w1 = (None, ?w1)"
    by simp
  have h12: "rem_removeParent (rem ?g) (store ?w1) (Id_File ?f) (Id_File ?p) = (Some ?e, ?st1)"
    by (simp add: example_defs world_xy_def)
  have fin: "emit (LogErrf ''removeParent:: %s %s %v\<newline>''
                     [S (Id_File ?f), S (src opt_xy), E ?e])
               (emit (RemoveParent (Id_File ?f) (Id_File ?p)) (?w1\<lparr>store := ?st1\<rparr>)) =
             \<lparr>store = ?st1,
              trace = [InsertParent ''1'' ''Y'', RemoveParent ''1'' ''X'',
                       LogErrf ''removeParent:: %s %s %v\<newline>''
                         [S ''1'', S ''x/a.txt'', E ?e]]\<rparr>"
    by (simp add: example_defs world_xy_def opt_xy_def)
  note inst = move_removal_failure_only_logged [OF h1 h2 h3 h4 h5 h6 h7 h8 h9 h10 h11 h12]
  have "fst (move_impl ?g opt_xy ?w) =
          Ret (if None \<in> set ([] :: File option list)
               then Some (Errorf ''non existant parent '%s' for src''
                            [S (parentPather ?g (src opt_xy))])
               else None)"
    using inst by (rule conjunct1)
  moreover have "snd (move_impl ?g opt_xy ?w) =
          snd (removeParent_loop ?g (Id_File ?f) (src opt_xy) (parentPather ?g (src opt_xy))
                 []
                 (emit (LogErrf ''removeParent:: %s %s %v\<newline>''
                          [S (Id_File ?f), S (src opt_xy), E ?e])
                    (emit (RemoveParent (Id_File ?f) (Id_File ?p)) (?w1\<lparr>store := ?st1\<rparr>))))"
    using inst by (rule conjunct1 [OF conjunct2])
  ultimately have m: "move_impl ?g opt_xy ?w =
                  (Ret None,
                   \<lparr>store = ?st1,
                    trace = [InsertParent ''1'' ''Y'', RemoveParent ''1'' ''X'',
                             LogErrf ''removeParent:: %s %s %v\<newline>''
                               [S ''1'', S ''x/a.txt'', E ?e]]\<rparr>)"
    unfolding fin by (simp add: prod_eq_iff)
  have c9: "insertParent (rem ?g) (store ?w) ''1'' ''Y'' = (None, ?st1)"
    using h9 by (simp add: ids)
  have c10: "FindByPath (rem ?g) ?st1 ''x'' = ([Some ?p], None)"
    by (simp add: example_defs world_xy_def)
  have c12: "rem_removeParent (rem ?g) ?st1 ''1'' ''X'' = (Some ?e, ?st1)"
    using h12 by (simp add: ids emit_def)
  show ?thesis using h1 c9 c10 c12 m by simp
qed

theorem move_removal_failure_counterexample:
  "insertParent (rem (Commands0 [''x/a.txt'', ''y''] False))
     (store (frozen0 [''X'']
        (world0 [(''x/a.txt'', [Some (file0 ''1'' ''a.txt'')]),
                 (''x'', [Some (dir0 ''X'' ''x''), None]),
                 (''y'', [Some (dir0 ''Y'' ''y'')])] [(''1'', ''X'')]))) ''1'' ''Y'' =
     (None,
      (store (frozen0 [''X'']
         (world0 [(''x/a.txt'', [Some (file0 ''1'' ''a.txt'')]),
                  (''x'', [Some (dir0 ''X'' ''x''), None]),
                  (''y'', [Some (dir0 ''Y'' ''y'')])] [(''1'', ''X'')])))
        \<lparr>parents0 := [(''1'', ''X''), (''1'', ''Y'')]\<rparr>) \<and>
   rem_removeParent (rem (Commands0 [''x/a.txt'', ''y''] False))
     ((store (frozen0 [''X'']
         (world0 [(''x/a.txt'', [Some (file0 ''1'' ''a.txt'')]),
                  (''x'', [Some (dir0 ''X'' ''x''), None]),
                  (''y'', [Some (dir0 ''Y'' ''y'')])] [(''1'', ''X'')])))
        \<lparr>parents0 := [(''1'', ''X''), (''1'', ''Y'')]\<rparr>) ''1'' ''X'' =
     (Some (RemoteErr ''permission denied''),
      (store (frozen0 [''X'']
         (world0 [(''x/a.txt'', [Some (file0 ''1'' ''a.txt'')]),
                  (''x'', [Some (dir0 ''X'' ''x''), None]),
                  (''y'', [Some (dir0 ''Y'' ''y'')])] [(''1'', ''X'')])))
        \<lparr>parents0 := [(''1'', ''X''), (''1'', ''Y'')]\<rparr>) \<and>
   move_impl (Commands0 [''x/a.txt'', ''y''] False) opt_xy
     (frozen0 [''X'']
        (world0 [(''x/a.txt'', [Some (file0 ''1'' ''a.txt'')]),
                 (''x'', [Some (dir0 ''X'' ''x''), None]),
                 (''y'', [Some (dir0 ''Y'' ''y'')])] [(''1'', ''X'')])) =
     (Ret (Some (Errorf ''non existant parent '%s' for src'' [S ''x''])),
      \<lparr>store = (store (frozen0 [''X'']
                  (world0 [(''x/a.txt'', [Some (file0 ''1'' ''a.txt'')]),
                           (''x'', [Some (dir0 ''X'' ''x''), None]),
                           (''y'', [Some (dir0 ''Y'' ''y'')])] [(''1'', ''X'')])))
                 \<lparr>parents0 := [(''1'', ''X''), (''1'', ''Y'')]\<rparr>,
       trace = [InsertParent ''1'' ''Y'', RemoveParent ''1'' ''X'',
                LogErrf ''removeParent:: %s %s %v\<newline>''
                  [S ''1'', S ''x/a.txt'', E (RemoteErr ''permission denied'')]]\<rparr>)"
  by (simp add: example_defs opt_xy_def pair_defs)

section \<open>Rename: the duplicate check\<close>

lemma rename_loop_no_conflict:
  "\<forall>x\<in>set dups. \<exists>d. x = Some d \<and> Id_File d = Id_File f \<Longrightarrow>
   rename_loop g (Some f) newName newFullPath dups err w = (Ret err, w)"
  by (induction dups) auto

lemma rename_impl_no_conflict:
  assumes "2 \<le> length (Sources (opts g))"
    and "FindByPath (rem g) (store w)
           (filepath_Join (pkg g)
              (if \<not> b then parentPather g srcPath else Path (opts g))
              (urlToPath (pkg g) (Sources (opts g) ! 1) True)) = (dups, err)"
    and "\<forall>x\<in>set dups. \<exists>d. x = Some d \<and> Id_File d = Id_File f"
  shows "rename_impl g srcPath (Some f) b w = (Ret err, w)"
  using assms rename_loop_no_conflict [of dups f g "Sources (opts g) ! 1" _ err w]
  by (auto simp: rename_impl_def Let_def)

text \<open>
  C3. A rename without a conflicting object: \<^verbatim>\<open>docs/a.txt\<close> is renamed to \<^verbatim>\<open>b.txt\<close>, and
  nothing exists at \<^verbatim>\<open>docs/b.txt\<close>. \<open>Rename\<close> returns nil, but the rename primitive
  is not called: the store is as it was, and the only event is the log line that reports
  the failed lookup of the new path as the error of the source. By
  \<open>rename_impl_no_conflict\<close> the same holds whenever every object found at the new path
  is the source itself.
\<close>

theorem Rename_free_name_not_renamed:
  "Rename (Commands0 [''docs/a.txt'', ''b.txt''] False) False
     (world0 [(''docs/a.txt'', [Some (file0 ''1'' ''a.txt'')]),
              (''docs'', [Some (dir0 ''D'' ''docs'')])] [(''1'', ''D'')]) =
     (Ret None,
      emit (LogErrf ''%s %v\<newline>'' [S ''docs/a.txt'', E ErrPathNotExists])
        (world0 [(''docs/a.txt'', [Some (file0 ''1'' ''a.txt'')]),
                 (''docs'', [Some (dir0 ''D'' ''docs'')])] [(''1'', ''D'')]))"
  by (simp add: example_defs Rename_def rename_impl_def)



section \<open>Copy: destinations\<close>

lemma Copy_loop_all_nil:
  "\<forall>x\<in>set destFiles. x = None \<Longrightarrow>
   Copy_loop fuel g destPath sources b destFiles w = (Ret None, w)"
  by (induction destFiles) auto

text \<open>
  C4. A copy of one source \<^verbatim>\<open>a.txt\<close>, a copyable file, to a destination
  \<^verbatim>\<open>new.txt\<close> that does not resolve to any object. Whatever the depth allowed to the
  recursion, \<open>Copy\<close> returns nil having logged its start and played and stopped the
  spinner: the copy primitive is not called and the store is as it was.
\<close>

theorem Copy_to_new_path_copies_nothing:
  "Copy fuel (Commands0 [''a.txt'', ''new.txt''] False) False
     (world0 [(''a.txt'', [Some (file0 ''1'' ''a.txt'')]), ([], [Some (dir0 ''R'' [])])]
        [(''1'', ''R'')]) =
     (Ret None,
      emit SpinStop (emit SpinPlay (emit (Logln ''Processing...'')
        (world0 [(''a.txt'', [Some (file0 ''1'' ''a.txt'')]), ([], [Some (dir0 ''R'' [])])]
           [(''1'', ''R'')]))))"
  by (simp add: example_defs Copy_def)

lemma copy_leaf_loop_calls:
  "\<exists>r w1 calls.
     copy_leaf_loop g s destFiles parentId destBase copies errs w = (r, w1) \<and>
     trace w1 = trace w @ calls \<and>
     list_all2 (\<lambda>df c. (\<exists>nm pid. c = CopyCall nm pid s) \<and>
                       (\<forall>d. df = Some d \<and> IsDir d \<longrightarrow> c = CopyCall (Name s) (Id_File d) s))
       destFiles calls"
proof (induction destFiles arbitrary: parentId destBase copies errs w)
  case Nil
  show ?case by simp
next
  case (Cons x xs)
  let ?into = "case x of None \<Rightarrow> False | Some df \<Rightarrow> IsDir df"
  let ?pid = "if ?into then Id_File (the x) else parentId"
  let ?base = "if ?into then Name s else destBase"
  obtain cp cpErr st where c: "rem_copy (rem g) (store w) ?base ?pid s = ((cp, cpErr), st)"
    by (cases "rem_copy (rem g) (store w) ?base ?pid s") auto
  let ?w1 = "emit (CopyCall ?base ?pid s) (w\<lparr>store := st\<rparr>)"
  let ?copies = "case cp of None \<Rightarrow> copies | Some c \<Rightarrow> copies @ [Some c]"
  let ?errs = "case cpErr of None \<Rightarrow> errs | Some e \<Rightarrow> errs @ [e]"
  have step: "copy_leaf_loop g s (x # xs) parentId destBase copies errs w =
              copy_leaf_loop g s xs ?pid ?base ?copies ?errs ?w1"
    using c by (simp add: Let_def)
  obtain r w2 calls where
    l: "copy_leaf_loop g s xs ?pid ?base ?copies ?errs ?w1 = (r, w2)"
    and t: "trace w2 = trace ?w1 @ calls"
    and a: "list_all2 (\<lambda>df c. (\<exists>nm pid. c = CopyCall nm pid s) \<and>
                       (\<forall>d. df = Some d \<and> IsDir d \<longrightarrow> c = CopyCall (Name s) (Id_File d) s))
              xs calls"
    using Cons.IH [of ?pid ?base ?copies ?errs ?w1] by blast
  have here: "(\<exists>nm pid. CopyCall ?base ?pid s = CopyCall nm pid s) \<and>
              (\<forall>d. x = Some d \<and> IsDir d \<longrightarrow> CopyCall ?base ?pid s = CopyCall (Name s) (Id_File d) s)"
    by auto
  have "trace w2 = trace w @ CopyCall ?base ?pid s # calls"
    using t by (simp add: emit_def)
  moreover have "list_all2 (\<lambda>df c. (\<exists>nm pid. c = CopyCall nm pid s) \<and>
                       (\<forall>d. df = Some d \<and> IsDir d \<longrightarrow> c = CopyCall (Name s) (Id_File d) s))
              (x # xs) (CopyCall ?base ?pid s # calls)"
    using a here by simp
  moreover have "copy_leaf_loop g s (x # xs) parentId destBase copies errs w = (r, w2)"
    using step l by simp
  ultimately show ?case
    by (intro exI conjI)
qed

text \<open>
  C8. The copy of a source that is a copyable file, whose destination directory has been
  made and whose destination path has been looked up without a hard error. For any depth
  of at least one \<open>copy\<close> returns, and after the call that made the destination directory
  it issues one call of the copy primitive for each entry found at the destination path,
  always with the source. For each entry that is a directory that call has the identity of
  the directory as the parent and the name of the source as the name of the copy.
\<close>

theorem copy_into_existing_directory:
  assumes "\<not> IsDir s"
    and "Copyable s"
    and "pathSplitter g destPath = (destDir, destBase)"
    and "remoteMkdirAll g (store w) destDir = ((Some dp, None), st1)"
    and "FindByPath (rem g) st1 destPath = (destFiles, destErr)"
    and "destErr = None \<or> destErr = Some ErrPathNotExists"
  shows "\<exists>r w1 calls.
           copy (Suc n) g (Some s) destPath w = (Ret r, w1) \<and>
           trace w1 = trace w @ MkdirAll destDir # calls \<and>
           list_all2 (\<lambda>df c. (\<exists>nm pid. c = CopyCall nm pid s) \<and>
                             (\<forall>d. df = Some d \<and> IsDir d \<longrightarrow>
                                c = CopyCall (Name s) (Id_File d) s))
             destFiles calls"
proof -
  let ?w1 = "emit (MkdirAll destDir) (w\<lparr>store := st1\<rparr>)"
  have st: "store ?w1 = st1" and tr: "trace ?w1 = trace w @ [MkdirAll destDir]"
    by (simp_all add: emit_def)
  obtain r w2 calls where
    l: "copy_leaf_loop g s destFiles (Id_File dp) destBase [] [] ?w1 = (r, w2)"
    and t: "trace w2 = trace ?w1 @ calls"
    and a: "list_all2 (\<lambda>df c. (\<exists>nm pid. c = CopyCall nm pid s) \<and>
                             (\<forall>d. df = Some d \<and> IsDir d \<longrightarrow>
                                c = CopyCall (Name s) (Id_File d) s))
              destFiles calls"
    using copy_leaf_loop_calls [of g s destFiles "Id_File dp" destBase "[]" "[]" ?w1] by blast
  have "copy_leaf g s destPath w = (Ret r, w2)"
    using assms(2-6) l by (auto simp: copy_leaf_def Let_def st)
  then have "copy (Suc n) g (Some s) destPath w = (Ret r, w2)"
    using assms(1) by simp
  moreover have "trace w2 = trace w @ MkdirAll destDir # calls"
    using t tr by simp
  ultimately show ?thesis using a
    by (intro exI conjI)
qed

theorem copy_into_existing_directory_witness:
  "\<not> IsDir (file0 ''1'' ''a.txt'') \<and> Copyable (file0 ''1'' ''a.txt'') \<and>
   pathSplitter (Commands0 [''a.txt'', ''docs''] False) ''docs'' = ([], ''docs'') \<and>
   remoteMkdirAll (Commands0 [''a.txt'', ''docs''] False)
     (store (world0 [(''a.txt'', [Some (file0 ''1'' ''a.txt'')]),
                     (''docs'', [Some (dir0 ''D'' ''docs'')]), ([], [Some (dir0 ''R'' [])])]
               [(''1'', ''R''), (''D'', ''R'')])) [] =
     ((Some (dir0 ''R'' []), None),
      store (world0 [(''a.txt'', [Some (file0 ''1'' ''a.txt'')]),
                     (''docs'', [Some (dir0 ''D'' ''docs'')]), ([], [Some (dir0 ''R'' [])])]
               [(''1'', ''R''), (''D'', ''R'')])) \<and>
   FindByPath (rem (Commands0 [''a.txt'', ''docs''] False))
     (store (world0 [(''a.txt'', [Some (file0 ''1'' ''a.txt'')]),
                     (''docs'', [Some (dir0 ''D'' ''docs'')]), ([], [Some (dir0 ''R'' [])])]
               [(''1'', ''R''), (''D'', ''R'')])) ''docs'' =
     ([Some (dir0 ''D'' ''docs'')], None) \<and>
   (\<exists>r w1. copy (Suc 0) (Commands0 [''a.txt'', ''docs''] False) (Some (file0 ''1'' ''a.txt''))
              ''docs''
              (world0 [(''a.txt'', [Some (file0 ''1'' ''a.txt'')]),
                       (''docs'', [Some (dir0 ''D'' ''docs'')]), ([], [Some (dir0 ''R'' [])])]
                 [(''1'', ''R''), (''D'', ''R'')]) = (Ret r, w1) \<and>
            trace w1 = [MkdirAll [], CopyCall ''a.txt'' ''D'' (file0 ''1'' ''a.txt'')])"
proof -
  let ?g = "Commands0 [''a.txt'', ''docs''] False"
  let ?f = "file0 ''1'' ''a.txt''"
  let ?d = "dir0 ''D'' ''docs''"
  let ?w = "world0 [(''a.txt'', [Some ?f]), (''docs'', [Some ?d]), ([], [Some (dir0 ''R'' [])])]
              [(''1'', ''R''), (''D'', ''R'')]"
  have h1: "\<not> IsDir ?f" and h2: "Copyable ?f"
    by (simp_all add: file0_def)
  have h3: "pathSplitter ?g ''docs'' = ([], ''docs'')"
    by (simp add: example_defs)
  have h4: "remoteMkdirAll ?g (store ?w) [] = ((Some (dir0 ''R'' []), None), store ?w)"
    by (simp add: example_defs)
  have h5: "FindByPath (rem ?g) (store ?w) ''docs'' = ([Some ?d], None)"
    by (simp add: example_defs)
  have h6: "None = None \<or> None = Some ErrPathNotExists"
    by simp
  have d: "IsDir ?d" and n: "Name ?f = ''a.txt''" and i: "Id_File ?d = ''D''" and t: "trace ?w = []"
    by (simp_all add: file0_def dir0_def world0_def)
  obtain r w1 calls where
    c: "copy (Suc 0) ?g (Some ?f) ''docs'' ?w = (Ret r, w1)"
    and tr: "trace w1 = trace ?w @ MkdirAll [] # calls"
    and a: "list_all2 (\<lambda>df c. (\<exists>nm pid. c = CopyCall nm pid ?f) \<and>
                             (\<forall>d. df = Some d \<and> IsDir d \<longrightarrow>
                                c = CopyCall (Name ?f) (Id_File d) ?f))
              [Some ?d] calls"
    using copy_into_existing_directory [OF h1 h2 h3 h4 h5 h6, of 0] by blast
  from a d have "calls = [CopyCall (Name ?f) (Id_File ?d) ?f]"
    by (auto simp: list_all2_Cons1)
  then have "trace w1 = [MkdirAll [], CopyCall ''a.txt'' ''D'' ?f]"
    using tr unfolding n i t by simp
  then have "\<exists>r w1. copy (Suc 0) ?g (Some ?f) ''docs'' ?w = (Ret r, w1) \<and>
                    trace w1 = [MkdirAll [], CopyCall ''a.txt'' ''D'' ?f]"
    using c by blast
  then show ?thesis using h1 h2 h3 h4 h5 by blast
qed

end
